theory Spec2Isabelle
  imports Complex_Main "HOL-Library.Multiset"
begin

section \<open>Numbers, dates and the Math object\<close>

text \<open>
  A value of the TypeScript type \<open>number\<close> is modelled as a \<^typ>\<open>real\<close>: arithmetic is
  exact, and the values NaN and Infinity do not occur. A counter that the program only
  initialises to 0 and increments by one (\<open>repetitions\<close>, \<open>sessionsCompleted\<close>, ...) is a
  \<^typ>\<open>nat\<close>. A \<open>Date\<close> is its time value, the integral number of milliseconds since the
  epoch; \<open>new Date()\<close> reads the clock, which every function that does so takes as its
  first argument \<open>now\<close>. A call is instantaneous: all the clock reads of one call give
  the same \<open>now\<close>. The range of time values that a \<open>Date\<close> can hold is not modelled.
\<close>

type_synonym Date = int

definition Math_round :: "real \<Rightarrow> real" where
  \<comment> \<open>\<open>Math.round\<close>: the nearest integer, a tie going up.\<close>
  "Math_round x = of_int \<lfloor>x + 1 / 2\<rfloor>"

definition Math_ceil :: "real \<Rightarrow> real" where
  "Math_ceil x = of_int \<lceil>x\<rceil>"

definition new_Date :: "real \<Rightarrow> Date" where
  \<comment> \<open>\<open>new Date(tv)\<close> drops the fraction of a time value (towards zero).\<close>
  "new_Date tv = (if 0 \<le> tv then \<lfloor>tv\<rfloor> else \<lceil>tv\<rceil>)"

definition getTime :: "Date \<Rightarrow> real" where
  "getTime d = of_int d"

section \<open>Spaced repetition: \<open>SpacedRepetitionScheduler\<close>\<close>

datatype CardSource = session_reflection | manual | imported

record FlashcardData =
  card_id :: string
  card_front :: string
  card_back :: string
  created :: Date
  lastReviewed :: "Date option"
  nextReview :: Date
  interval :: real
  easeFactor :: real
  repetitions :: nat
  quality :: "real option"
  tags :: "string list option"
  source :: "CardSource option"
  sessionId :: "string option"

record ReviewResult =
  result_quality :: real

definition MIN_EASE_FACTOR :: real where
  "MIN_EASE_FACTOR = 1.3"

definition INITIAL_EASE_FACTOR :: real where
  "INITIAL_EASE_FACTOR = 2.5"

definition INITIAL_INTERVAL :: real where
  "INITIAL_INTERVAL = 1"

definition reviewCard :: "Date \<Rightarrow> FlashcardData \<Rightarrow> ReviewResult \<Rightarrow> FlashcardData" where
  "reviewCard now c result =
     (let q = max 0 (min 5 (result_quality result));
          easeFactor1 = easeFactor c + (0.1 - (5 - q) * (0.08 + (5 - q) * 0.02));
          easeFactor2 = max MIN_EASE_FACTOR easeFactor1;
          (repetitions', interval') =
             (if q < 3 then (0, INITIAL_INTERVAL)
              else
                (let repetitions1 = repetitions c + 1
                 in (repetitions1,
                     if repetitions1 = 1 then 1
                     else if repetitions1 = 2 then 6
                     else Math_round (interval c * easeFactor2))));
          nextReview' = new_Date (getTime now + interval' * 24 * 60 * 60 * 1000)
      in c\<lparr>lastReviewed := Some now,
              nextReview := nextReview',
              interval := interval',
              easeFactor := easeFactor2,
              repetitions := repetitions',
              quality := Some q\<rparr>)"

definition card0 :: FlashcardData where
  \<comment> \<open>A card as \<open>createFlashcard\<close> makes it at time 0, after two good reviews.\<close>
  "card0 = \<lparr>card_id = ''c1'', card_front = ''2+2'', card_back = ''4'', created = 0,
            lastReviewed = None, nextReview = 86400000, interval = 6,
            easeFactor = 2.5, repetitions = 2, quality = None,
            tags = Some [], source = Some manual, sessionId = None\<rparr>"

section \<open>Browser local storage\<close>

text \<open>
  The program keeps everything in the string-valued \<open>localStorage\<close>, as JSON text. A stored
  string is modelled by what \<open>getItem\<close> and \<open>JSON.parse\<close> make of it: the key is absent
  (\<open>getItem\<close> returns \<open>null\<close>), or holds the empty string (falsy, and no JSON), or another
  string that \<open>JSON.parse\<close> rejects, or the JSON text of a value that is not an array, or
  the JSON text of an array, whose entries have the type the program stores under the key
  (the TypeScript types are taken at their word: an array with entries of another shape is
  not a state of the model). \<open>JSON.stringify\<close> followed by \<open>JSON.parse\<close> and the
  \<open>new Date\<close> calls of the loaders gives back the entries that were written. A write is
  refused with an exception when \<open>quota_exceeded\<close> holds. \<open>console.error\<close> only logs.

  A function with a \<open>try\<close> block is given as two definitions: the body of the block, whose
  result is an exception (\<open>Inl\<close>) or a value (\<open>Inr\<close>), and the function itself, which
  adds the handler. Every handler of the program returns or does nothing, so the function
  itself has a plain result: no exception leaves it.
\<close>

datatype js_error = SyntaxError | TypeError | QuotaExceededError

datatype 'a item = Absent | Empty_text | Invalid_text | Other_json | Array_json "'a list"

datatype 'a json_value = Not_array | Array "'a list"

definition falsy :: "'a item \<Rightarrow> bool" where
  \<comment> \<open>\<open>!stored\<close>: \<open>null\<close> and the empty string are falsy.\<close>
  "falsy stored = (case stored of Absent \<Rightarrow> True | Empty_text \<Rightarrow> True | _ \<Rightarrow> False)"

definition JSON_parse :: "'a item \<Rightarrow> js_error + 'a json_value" where
  \<comment> \<open>\<open>JSON.parse(null)\<close> is \<open>null\<close>.\<close>
  "JSON_parse stored =
     (case stored of
        Absent \<Rightarrow> Inr Not_array
      | Empty_text \<Rightarrow> Inl SyntaxError
      | Invalid_text \<Rightarrow> Inl SyntaxError
      | Other_json \<Rightarrow> Inr Not_array
      | Array_json xs \<Rightarrow> Inr (Array xs))"

definition JSON_stringify :: "'a json_value \<Rightarrow> 'a item" where
  "JSON_stringify v = (case v of Not_array \<Rightarrow> Other_json | Array xs \<Rightarrow> Array_json xs)"

definition array_map :: "('a \<Rightarrow> 'b) \<Rightarrow> 'a json_value \<Rightarrow> js_error + 'b list" where
  \<comment> \<open>\<open>v.map(f)\<close>: a value that is not an array has no method \<open>map\<close>.\<close>
  "array_map f v = (case v of Not_array \<Rightarrow> Inl TypeError | Array xs \<Rightarrow> Inr (map f xs))"

definition array_push :: "'a json_value \<Rightarrow> 'a \<Rightarrow> js_error + 'a json_value" where
  \<comment> \<open>\<open>v.push(x)\<close>: a value that is not an array has no method \<open>push\<close>.\<close>
  "array_push v x = (case v of Not_array \<Rightarrow> Inl TypeError | Array xs \<Rightarrow> Inr (Array (xs @ [x])))"

definition try_catch :: "js_error + 'a \<Rightarrow> (js_error \<Rightarrow> 'a) \<Rightarrow> 'a" where
  \<comment> \<open>\<open>try { body } catch (error) { handler }\<close>, for a handler that does not throw.\<close>
  "try_catch body handler = (case body of Inl e \<Rightarrow> handler e | Inr v \<Rightarrow> v)"

definition revive_Date :: "Date \<Rightarrow> Date" where
  \<comment> \<open>\<open>new Date(s)\<close> for the ISO string \<open>s\<close> that \<open>JSON.stringify\<close> wrote for a date.\<close>
  "revive_Date d = d"

fun update_first :: "('a \<Rightarrow> bool) \<Rightarrow> ('a \<Rightarrow> 'a) \<Rightarrow> 'a list \<Rightarrow> 'a list" where
  \<comment> \<open>\<open>xs.find(P)\<close> followed by an update in place of the element found.\<close>
  "update_first P f [] = []"
| "update_first P f (x # xs) = (if P x then f x # xs else x # update_first P f xs)"

section \<open>Goals: the data of \<open>goalSystem.ts\<close>\<close>

datatype GoalType = exam | project | skill | course | certification | personal

datatype Level = low | medium | high | critical

type_synonym GoalPriority = Level

datatype TaskStatus = not_started | in_progress | completed | blocked

record GoalTask =
  task_id :: string
  task_goalId :: string
  task_title :: string
  task_description :: "string option"
  status :: TaskStatus
  estimatedMinutes :: "real option"
  actualMinutes :: real
  dueDate :: "Date option"
  task_completedAt :: "Date option"
  task_tags :: "string list"
  flashcardCount :: "real option"
  notesLink :: "string option"

record StudyGoal =
  goal_id :: string
  title :: string
  goal_type :: GoalType
  subject :: string
  description :: "string option"
  deadline :: "Date option"
  priority :: GoalPriority
  targetHours :: "real option"
  hoursCompleted :: real
  createdAt :: Date
  completedAt :: "Date option"
  isActive :: bool
  tasks :: "GoalTask list"
  dailyCommitment :: "real option"
  weeklyCommitment :: "real option"
  preferredStudyTimes :: "string list option"
  sessionsCompleted :: nat
  flashcardsCreated :: nat
  flashcardsMastered :: nat
  currentStreak :: nat
  storyMilestones :: "string list"
  currentChapter :: nat

record GoalProgress =
  progress_goalId :: string
  progressPercentage :: real
  tasksCompleted :: nat
  totalTasks :: nat
  progress_hoursCompleted :: real
  progress_targetHours :: real
  daysUntilDeadline :: "real option"
  onTrack :: bool
  recommendedDailyMinutes :: real
  projectedCompletionDate :: "Date option"

datatype Action = deep_work | review | flashcards | light_study | take_break

text \<open>
  A template literal is kept as the list of its parts: the literal text, and the values
  that \<open>${...}\<close> inserts, which JavaScript converts to text.
\<close>

datatype part = Str string | Num real | Undefined

type_synonym template = "part list"

definition num_part :: "real option \<Rightarrow> part" where
  \<comment> \<open>\<open>${x}\<close> for an optional number \<open>x\<close>.\<close>
  "num_part x = (case x of None \<Rightarrow> Undefined | Some v \<Rightarrow> Num v)"


record DailyRecommendation =
  rec_goalId :: string
  goalTitle :: string
  rec_priority :: real
  recommendedAction :: Action
  suggestedDuration :: real
  suggestedPreset :: string
  reasoning :: template
  urgency :: Level

record SessionGoalLink =
  link_sessionId :: string
  link_goalId :: string
  link_taskId :: "string option"
  minutesWorked :: real
  focusRating :: real
  progressMade :: bool
  completedTask :: bool
  link_notes :: "string option"
  timestamp :: Date

datatype TriggerType =
  progress_trigger | streak_trigger | completion_trigger | task_count_trigger
  | deadline_proximity_trigger

datatype Mood = focused | struggling | successful | determined

record StoryContent =
  content_title :: string
  content_text :: template
  content_characterMood :: Mood
  backgroundUrl :: "string option"
  unlocked :: bool
  unlockedAt :: "Date option"

record StoryMilestone =
  milestone_id :: string
  milestone_goalId :: string
  triggerType :: TriggerType
  triggerValue :: real
  storyContent :: StoryContent

record Storage =
  goals_item :: "StudyGoal item"
  sessions_item :: "SessionGoalLink item"
  flashcards_item :: "FlashcardData item"
  milestones_item :: "string \<Rightarrow> StoryMilestone item"
  quota_exceeded :: bool

text \<open>
  The four fields are the keys \<open>'pomodoro-study-goals'\<close>, \<open>'pomodoro-goal-sessions'\<close>,
  \<open>'pomodoro-flashcards'\<close> and, for each goal id, \<open>'pomodoro-story-milestones-'\<close>
  followed by the id.
\<close>

definition setItem :: "Storage \<Rightarrow> (Storage \<Rightarrow> Storage) \<Rightarrow> js_error + Storage" where
  \<comment> \<open>\<open>localStorage.setItem(key, text)\<close>, with the write to the key given as \<open>write\<close>.\<close>
  "setItem st write = (if quota_exceeded st then Inl QuotaExceededError else Inr (write st))"

section \<open>Flashcard storage: \<open>FlashcardStorage\<close>\<close>

definition reviveCard :: "FlashcardData \<Rightarrow> FlashcardData" where
  \<comment> \<open>The function mapped over the parsed array in \<open>loadCards\<close>.\<close>
  "reviveCard c =
     c\<lparr>created := revive_Date (created c),
       lastReviewed := (case lastReviewed c of Some d \<Rightarrow> Some (revive_Date d) | None \<Rightarrow> None),
       nextReview := revive_Date (nextReview c)\<rparr>"

definition loadCards_try :: "Storage \<Rightarrow> js_error + FlashcardData list" where
  \<comment> \<open>The body of the \<open>try\<close> block of \<open>loadCards\<close>.\<close>
  "loadCards_try st =
     (let stored = flashcards_item st
      in if falsy stored then Inr []
         else (case JSON_parse stored of
                 Inl e \<Rightarrow> Inl e
               | Inr cards \<Rightarrow> array_map reviveCard cards))"

definition loadCards :: "Storage \<Rightarrow> FlashcardData list" where
  "loadCards st = try_catch (loadCards_try st) (\<lambda>error. [])"

section \<open>Goal management: \<open>GoalManager\<close>\<close>

definition reviveTask :: "GoalTask \<Rightarrow> GoalTask" where
  \<comment> \<open>The function mapped over the tasks of a goal in \<open>getGoals\<close>.\<close>
  "reviveTask t =
     t\<lparr>dueDate := (case dueDate t of Some d \<Rightarrow> Some (revive_Date d) | None \<Rightarrow> None),
       task_completedAt :=
         (case task_completedAt t of Some d \<Rightarrow> Some (revive_Date d) | None \<Rightarrow> None)\<rparr>"

definition reviveGoal :: "StudyGoal \<Rightarrow> StudyGoal" where
  \<comment> \<open>The function mapped over the parsed array in \<open>getGoals\<close>.\<close>
  "reviveGoal goal =
     goal\<lparr>deadline := (case deadline goal of Some d \<Rightarrow> Some (revive_Date d) | None \<Rightarrow> None),
          createdAt := revive_Date (createdAt goal),
          completedAt :=
            (case completedAt goal of Some d \<Rightarrow> Some (revive_Date d) | None \<Rightarrow> None),
          tasks := map reviveTask (tasks goal)\<rparr>"

definition getGoals_try :: "Storage \<Rightarrow> js_error + StudyGoal list" where
  \<comment> \<open>The body of the \<open>try\<close> block of \<open>getGoals\<close>.\<close>
  "getGoals_try st =
     (let stored = goals_item st
      in if falsy stored then Inr []
         else (case JSON_parse stored of
                 Inl e \<Rightarrow> Inl e
               | Inr parsed \<Rightarrow> array_map reviveGoal parsed))"

definition getGoals :: "Storage \<Rightarrow> StudyGoal list" where
  "getGoals st = try_catch (getGoals_try st) (\<lambda>error. [])"

definition saveGoals :: "Storage \<Rightarrow> StudyGoal list \<Rightarrow> Storage" where
  "saveGoals st goals =
     try_catch (setItem st (\<lambda>s. s\<lparr>goals_item := JSON_stringify (Array goals)\<rparr>))
       (\<lambda>error. st)"

definition getActiveGoals :: "Storage \<Rightarrow> StudyGoal list" where
  "getActiveGoals st = filter (\<lambda>g. isActive g \<and> completedAt g = None) (getGoals st)"

definition or_zero :: "real option \<Rightarrow> real" where
  \<comment> \<open>\<open>x || 0\<close> for an optional number \<open>x\<close>.\<close>
  "or_zero x = (case x of None \<Rightarrow> 0 | Some v \<Rightarrow> v)"

definition weightedProgress :: "StudyGoal \<Rightarrow> real" where
  \<comment> \<open>The local variable \<open>progressPercentage\<close> of \<open>calculateProgress\<close>, before it is clamped.\<close>
  "weightedProgress goal =
     (let totalTasks' = length (tasks goal);
          tasksCompleted' = length (filter (\<lambda>t. status t = completed) (tasks goal));
          targetHours' = or_zero (targetHours goal);
          hoursCompleted' = hoursCompleted goal
      in if totalTasks' > 0 \<and> targetHours' > 0 then
           (let taskProgress = (real tasksCompleted' / real totalTasks') * 100;
                hourProgress = (hoursCompleted' / targetHours') * 100
            in taskProgress * 0.6 + hourProgress * 0.4)
         else if totalTasks' > 0 then (real tasksCompleted' / real totalTasks') * 100
         else if targetHours' > 0 then (hoursCompleted' / targetHours') * 100
         else 0)"

definition currentDailyAverage :: "Date \<Rightarrow> StudyGoal \<Rightarrow> real" where
  \<comment> \<open>The local constant \<open>currentDailyAverage\<close> of \<open>calculateProgress\<close>.\<close>
  "currentDailyAverage now goal =
     (if sessionsCompleted goal > 0
      then (hoursCompleted goal * 60) /
           max 1 ((getTime now - getTime (createdAt goal)) / (1000 * 60 * 60 * 24))
      else 0)"

definition deadlineProjection ::
  "Date \<Rightarrow> StudyGoal \<Rightarrow> real option \<times> bool \<times> real \<times> Date option" where
  \<comment> \<open>The local variables \<open>daysUntilDeadline\<close>, \<open>onTrack\<close>, \<open>recommendedDailyMinutes\<close> and
      \<open>projectedCompletionDate\<close> of \<open>calculateProgress\<close>, after the \<open>if (goal.deadline)\<close>
      statement.\<close>
  "deadlineProjection now goal =
     (let targetHours' = or_zero (targetHours goal);
          hoursCompleted' = hoursCompleted goal
      in case deadline goal of
           Some dl \<Rightarrow>
             (let days = Math_ceil ((getTime dl - getTime now) / (1000 * 60 * 60 * 24))
              in if targetHours' > 0 then
                   (let hoursRemaining = targetHours' - hoursCompleted'
                    in if days > 0 then
                         (let requiredDailyHours = hoursRemaining / days;
                              recommended = Math_ceil (requiredDailyHours * 60)
                          in (Some days,
                              currentDailyAverage now goal \<ge> recommended * 0.8,
                              recommended,
                              if currentDailyAverage now goal > 0 then
                                (let daysToComplete =
                                       (hoursRemaining * 60) / currentDailyAverage now goal
                                 in Some (new_Date (getTime now +
                                            daysToComplete * 24 * 60 * 60 * 1000)))
                              else None))
                       else (Some days, True, 0, None))
                 else (Some days, True, 0, None))
         | None \<Rightarrow>
             (if or_zero (dailyCommitment goal) \<noteq> 0 \<and> targetHours' > 0 then
                (let hoursRemaining = targetHours' - hoursCompleted';
                     daysToComplete = (hoursRemaining * 60) / or_zero (dailyCommitment goal)
                 in (None, True, or_zero (dailyCommitment goal),
                     Some (new_Date (getTime now + daysToComplete * 24 * 60 * 60 * 1000))))
              else (None, True, 0, None)))"

definition calculateProgress :: "Date \<Rightarrow> Storage \<Rightarrow> string \<Rightarrow> GoalProgress" where
  "calculateProgress now st goalId =
     (case find (\<lambda>g. goal_id g = goalId) (getGoals st) of
        None \<Rightarrow>
          \<lparr>progress_goalId = goalId, progressPercentage = 0, tasksCompleted = 0,
           totalTasks = 0, progress_hoursCompleted = 0, progress_targetHours = 0,
           daysUntilDeadline = None, onTrack = False, recommendedDailyMinutes = 0,
           projectedCompletionDate = None\<rparr>
      | Some goal \<Rightarrow>
          (case deadlineProjection now goal of
             (daysUntilDeadline', onTrack', recommendedDailyMinutes', projectedCompletionDate') \<Rightarrow>
               \<lparr>progress_goalId = goalId,
                progressPercentage = min 100 (max 0 (weightedProgress goal)),
                tasksCompleted = length (filter (\<lambda>t. status t = completed) (tasks goal)),
                totalTasks = length (tasks goal),
                progress_hoursCompleted = hoursCompleted goal,
                progress_targetHours = or_zero (targetHours goal),
                daysUntilDeadline = daysUntilDeadline',
                onTrack = onTrack',
                recommendedDailyMinutes = recommendedDailyMinutes',
                projectedCompletionDate = projectedCompletionDate'\<rparr>))"

section \<open>Example data\<close>

definition task_done :: GoalTask where
  \<comment> \<open>A task that has been completed.\<close>
  "task_done = \<lparr>task_id = ''t1'', task_goalId = ''g1'', task_title = ''Read chapter 1'',
      task_description = None, status = completed, estimatedMinutes = Some 60,
      actualMinutes = 50, dueDate = None, task_completedAt = Some 86400000,
      task_tags = [], flashcardCount = None, notesLink = None\<rparr>"

definition task_open :: GoalTask where
  \<comment> \<open>A task that has not been started.\<close>
  "task_open = \<lparr>task_id = ''t2'', task_goalId = ''g1'', task_title = ''Read chapter 2'',
      task_description = None, status = not_started, estimatedMinutes = Some 60,
      actualMinutes = 0, dueDate = None, task_completedAt = None,
      task_tags = [], flashcardCount = None, notesLink = None\<rparr>"

definition goal_demo :: StudyGoal where
  \<comment> \<open>A goal with a deadline at day 10, 10 target hours, 4 hours done and one of two tasks done.\<close>
  "goal_demo = \<lparr>goal_id = ''g1'', title = ''Algebra exam'', goal_type = exam,
      subject = ''Algebra'', description = None, deadline = Some 864000000,
      priority = high, targetHours = Some 10, hoursCompleted = 4, createdAt = 0,
      completedAt = None, isActive = True, tasks = [task_done, task_open],
      dailyCommitment = None, weeklyCommitment = None, preferredStudyTimes = None,
      sessionsCompleted = 3, flashcardsCreated = 0, flashcardsMastered = 0,
      currentStreak = 0, storyMilestones = [], currentChapter = 1\<rparr>"

definition goal_over :: StudyGoal where
  \<comment> \<open>A goal without a deadline, with more hours done than its target.\<close>
  "goal_over = goal_demo\<lparr>goal_id := ''g2'', deadline := None, targetHours := Some 1,
      hoursCompleted := 3, tasks := [task_done]\<rparr>"

definition store_demo :: Storage where
  \<comment> \<open>A storage that holds the two goals and nothing else.\<close>
  "store_demo = \<lparr>goals_item = Array_json [goal_demo, goal_over], sessions_item = Absent,
      flashcards_item = Absent, milestones_item = (\<lambda>goalId. Absent),
      quota_exceeded = False\<rparr>"


section \<open>Session linking\<close>

definition linkTask :: "Date \<Rightarrow> SessionGoalLink \<Rightarrow> GoalTask \<Rightarrow> GoalTask" where
  \<comment> \<open>The update of the task found, in \<open>linkSessionToGoal\<close>.\<close>
  "linkTask now sessionLink task =
     (let task1 = task\<lparr>actualMinutes := actualMinutes task + minutesWorked sessionLink\<rparr>
      in if completedTask sessionLink then
           task1\<lparr>status := completed, task_completedAt := Some now\<rparr>
         else if status task1 = not_started then task1\<lparr>status := in_progress\<rparr>
         else task1)"

definition linkGoal :: "Date \<Rightarrow> SessionGoalLink \<Rightarrow> StudyGoal \<Rightarrow> StudyGoal" where
  \<comment> \<open>The update of the goal found, in \<open>linkSessionToGoal\<close>; an empty \<open>taskId\<close> is falsy.\<close>
  "linkGoal now sessionLink goal =
     (let goal1 = goal\<lparr>sessionsCompleted := sessionsCompleted goal + 1,
                        hoursCompleted := hoursCompleted goal + minutesWorked sessionLink / 60\<rparr>
      in case link_taskId sessionLink of
           None \<Rightarrow> goal1
         | Some taskId \<Rightarrow>
             if taskId = [] then goal1
             else goal1\<lparr>tasks := update_first (\<lambda>t. task_id t = taskId)
                                    (linkTask now sessionLink) (tasks goal1)\<rparr>)"

definition linkSessionToGoal_try :: "Date \<Rightarrow> Storage \<Rightarrow> SessionGoalLink \<Rightarrow> js_error + Storage" where
  \<comment> \<open>The body of the \<open>try\<close> block of \<open>linkSessionToGoal\<close>.\<close>
  "linkSessionToGoal_try now st sessionLink =
     (let stored = sessions_item st
      in case (if falsy stored then Inr (Array []) else JSON_parse stored) of
           Inl e \<Rightarrow> Inl e
         | Inr sessions \<Rightarrow>
            (case array_push sessions sessionLink of
               Inl e \<Rightarrow> Inl e
             | Inr sessions' \<Rightarrow>
                (case setItem st (\<lambda>s. s\<lparr>sessions_item := JSON_stringify sessions'\<rparr>) of
                   Inl e \<Rightarrow> Inl e
                 | Inr st' \<Rightarrow>
                    (let goals = getGoals st'
                     in case find (\<lambda>g. goal_id g = link_goalId sessionLink) goals of
                          None \<Rightarrow> Inr st'
                        | Some goal \<Rightarrow>
                            Inr (saveGoals st'
                                  (update_first (\<lambda>g. goal_id g = link_goalId sessionLink)
                                     (linkGoal now sessionLink) goals))))))"

definition linkSessionToGoal :: "Date \<Rightarrow> Storage \<Rightarrow> SessionGoalLink \<Rightarrow> Storage" where
  "linkSessionToGoal now st sessionLink =
     try_catch (linkSessionToGoal_try now st sessionLink) (\<lambda>error. st)"

definition storedSessions :: "Storage \<Rightarrow> SessionGoalLink list option" where
  \<comment> \<open>The session log as \<open>linkSessionToGoal\<close> reads it: \<open>stored ? JSON.parse(stored) : []\<close>,
      when that is an array.\<close>
  "storedSessions st =
     (case (if falsy (sessions_item st) then Inr (Array []) else JSON_parse (sessions_item st)) of
        Inr (Array xs) \<Rightarrow> Some xs
      | _ \<Rightarrow> None)"

definition link_demo :: SessionGoalLink where
  \<comment> \<open>A session for a goal id that is not stored.\<close>
  "link_demo = \<lparr>link_sessionId = ''s1'', link_goalId = ''g9'', link_taskId = None,
      minutesWorked = 25, focusRating = 4, progressMade = True, completedTask = False,
      link_notes = None, timestamp = 0\<rparr>"

definition store_badlog :: Storage where
  \<comment> \<open>The storage \<open>store_demo\<close> with a session log that is not JSON.\<close>
  "store_badlog = store_demo\<lparr>sessions_item := Invalid_text\<rparr>"

definition store_broken :: Storage where
  \<comment> \<open>A storage whose goals are not JSON and whose flashcards are the empty string.\<close>
  "store_broken = store_demo\<lparr>goals_item := Invalid_text, flashcards_item := Empty_text\<rparr>"

section \<open>Daily recommendations\<close>

fun insert_by :: "('a \<Rightarrow> 'a \<Rightarrow> real) \<Rightarrow> 'a \<Rightarrow> 'a list \<Rightarrow> 'a list" where
  "insert_by compareFn x [] = [x]"
| "insert_by compareFn x (y # ys) =
     (if compareFn x y \<le> 0 then x # y # ys else y # insert_by compareFn x ys)"

definition Array_sort :: "('a \<Rightarrow> 'a \<Rightarrow> real) \<Rightarrow> 'a list \<Rightarrow> 'a list" where
  \<comment> \<open>\<open>xs.sort(compareFn)\<close>, a stable sort: an element stays in front of a later one
      unless \<open>compareFn\<close> is positive on them.\<close>
  "Array_sort compareFn xs = foldr (insert_by compareFn) xs []"

definition deadlineUrgency :: "real option \<Rightarrow> Level \<times> real" where
  \<comment> \<open>The variables \<open>urgency\<close> and \<open>priority\<close> of \<open>getDailyRecommendations\<close> after
      the statement under \<open>// Determine urgency\<close>.\<close>
  "deadlineUrgency days =
     (case days of
        None \<Rightarrow> (medium, 5)
      | Some d \<Rightarrow>
          if d \<le> 2 then (critical, 10)
          else if d \<le> 7 then (high, 8)
          else if d \<le> 14 then (medium, 6)
          else (low, 4))"

definition priorityBoost :: "GoalPriority \<Rightarrow> real" where
  "priorityBoost p = (case p of critical \<Rightarrow> 3 | high \<Rightarrow> 2 | medium \<Rightarrow> 0 | low \<Rightarrow> - 1)"

definition recommendedSession ::
  "StudyGoal \<Rightarrow> GoalProgress \<Rightarrow> Level \<Rightarrow> Action \<times> real \<times> string \<times> template" where
  \<comment> \<open>The variables \<open>recommendedAction\<close>, \<open>suggestedDuration\<close>, \<open>suggestedPreset\<close> and
      \<open>reasoning\<close> after the statement under \<open>// Determine action\<close>.\<close>
  "recommendedSession goal progress urgency' =
     (if progressPercentage progress > 70 then
        (review, 25, ''classic'',
         [Str ''You're '', Num (Math_round (progressPercentage progress)),
          Str ''% complete. Focus on reviewing and consolidating knowledge.''])
      else if urgency' = critical then
        (deep_work, 50, ''deep-work'',
         [Str ''Deadline in '', num_part (daysUntilDeadline progress),
          Str '' days! Deep focus session recommended.''])
      else if \<not> onTrack progress \<and> urgency' \<noteq> low then
        (deep_work, 50, ''deep-work'',
         [Str ''Behind schedule. Need '', Num (recommendedDailyMinutes progress),
          Str '' min/day to stay on track.''])
      else if flashcardsCreated goal > 0
              \<and> flashcardsCreated goal > flashcardsMastered goal * 2 then
        (flashcards, 15, ''quick-study'',
         [Str ''Many flashcards need review. Quick study session recommended.''])
      else
        (deep_work, 25, ''classic'',
         [Str ''Continue steady progress on '', Str (subject goal), Str ''.'']))"

definition recommendationFor :: "Date \<Rightarrow> Storage \<Rightarrow> StudyGoal \<Rightarrow> DailyRecommendation" where
  \<comment> \<open>The body of the loop of \<open>getDailyRecommendations\<close>: the recommendation pushed for
      one active goal.\<close>
  "recommendationFor now st goal =
     (let progress = calculateProgress now st (goal_id goal)
      in case deadlineUrgency (daysUntilDeadline progress) of
           (urgency', priority0) \<Rightarrow>
             (let priority' = priority0 + priorityBoost (priority goal)
              in case recommendedSession goal progress urgency' of
                   (recommendedAction', suggestedDuration', suggestedPreset', reasoning') \<Rightarrow>
                     \<lparr>rec_goalId = goal_id goal,
                      goalTitle = title goal,
                      rec_priority = priority',
                      recommendedAction = recommendedAction',
                      suggestedDuration = suggestedDuration',
                      suggestedPreset = suggestedPreset',
                      reasoning = reasoning',
                      urgency = urgency'\<rparr>))"

definition getDailyRecommendations :: "Date \<Rightarrow> Storage \<Rightarrow> DailyRecommendation list" where
  "getDailyRecommendations now st =
     Array_sort (\<lambda>a b. rec_priority b - rec_priority a)
       (map (recommendationFor now st) (getActiveGoals st))"

definition spec_priority :: "real option \<Rightarrow> GoalPriority \<Rightarrow> real" where
  \<comment> \<open>The priority of a goal in the words of the specification: the deadline tier plus
      the boost of the goal's priority.\<close>
  "spec_priority days p =
     (case days of
        None \<Rightarrow> 5
      | Some d \<Rightarrow> if d \<le> 2 then 10 else if d \<le> 7 then 8 else if d \<le> 14 then 6 else 4)
     + (case p of critical \<Rightarrow> 3 | high \<Rightarrow> 2 | medium \<Rightarrow> 0 | low \<Rightarrow> - 1)"

definition store_swapped :: Storage where
  \<comment> \<open>The two goals in the other order.\<close>
  "store_swapped = store_demo\<lparr>goals_item := Array_json [goal_over, goal_demo]\<rparr>"

section \<open>Story and goals: \<open>StoryGoalEngine\<close>\<close>


















section \<open>Example data for the story engine\<close>






section \<open>Properties of \<open>reviewCard\<close>\<close>



lemma reviewCard_easeFactor:
  "easeFactor (reviewCard now c result) =
     max 1.3 (easeFactor c +
       (0.1 - (5 - max 0 (min 5 (result_quality result))) *
          (0.08 + (5 - max 0 (min 5 (result_quality result))) * 0.02)))"
  by (simp add: reviewCard_def Let_def MIN_EASE_FACTOR_def split: prod.splits)











text \<open>
  Claim C3. The lower bound \<open>MIN_EASE_FACTOR = 1.3\<close> on the ease factor is preserved by
  every review: a card whose ease factor is at least 1.3 has, after \<open>reviewCard\<close> with any
  quality, an ease factor of at least 1.3.
\<close>

theorem reviewCard_keeps_min_ease:
  "MIN_EASE_FACTOR \<le> easeFactor c \<Longrightarrow> MIN_EASE_FACTOR \<le> easeFactor (reviewCard now c result)"
  by (simp add: reviewCard_easeFactor MIN_EASE_FACTOR_def)

theorem reviewCard_keeps_min_ease_witness:
  "MIN_EASE_FACTOR \<le> easeFactor (card0\<lparr>easeFactor := 1.3\<rparr>)
   \<and> MIN_EASE_FACTOR \<le> easeFactor (reviewCard 1000 (card0\<lparr>easeFactor := 1.3\<rparr>) \<lparr>result_quality = 0\<rparr>)"
proof -
  have h: "MIN_EASE_FACTOR \<le> easeFactor (card0\<lparr>easeFactor := 1.3\<rparr>)"
    by (simp add: MIN_EASE_FACTOR_def)
  from h reviewCard_keeps_min_ease [OF h] show ?thesis
    by blast
qed









section \<open>Properties of \<open>calculateProgress\<close>\<close>

lemma calculateProgress_found:
  assumes "find (\<lambda>g. goal_id g = goalId) (getGoals st) = Some goal"
  shows "calculateProgress now st goalId =
     \<lparr>progress_goalId = goalId,
      progressPercentage = min 100 (max 0 (weightedProgress goal)),
      tasksCompleted = length (filter (\<lambda>t. status t = completed) (tasks goal)),
      totalTasks = length (tasks goal),
      progress_hoursCompleted = hoursCompleted goal,
      progress_targetHours = or_zero (targetHours goal),
      daysUntilDeadline = fst (deadlineProjection now goal),
      onTrack = fst (snd (deadlineProjection now goal)),
      recommendedDailyMinutes = fst (snd (snd (deadlineProjection now goal))),
      projectedCompletionDate = snd (snd (snd (deadlineProjection now goal)))\<rparr>"
  unfolding calculateProgress_def assms option.case
  by (simp split: prod.splits)

lemma calculateProgress_not_found:
  assumes "find (\<lambda>g. goal_id g = goalId) (getGoals st) = None"
  shows "calculateProgress now st goalId =
          \<lparr>progress_goalId = goalId, progressPercentage = 0, tasksCompleted = 0,
           totalTasks = 0, progress_hoursCompleted = 0, progress_targetHours = 0,
           daysUntilDeadline = None, onTrack = False, recommendedDailyMinutes = 0,
           projectedCompletionDate = None\<rparr>"
  unfolding calculateProgress_def assms option.case ..

lemma deadlineProjection_days:
  "fst (deadlineProjection now goal) =
     (case deadline goal of
        None \<Rightarrow> None
      | Some dl \<Rightarrow> Some (Math_ceil ((getTime dl - getTime now) / (1000 * 60 * 60 * 24))))"
  unfolding deadlineProjection_def Let_def
  by (simp split: option.splits)



lemma reviveTask_same: "reviveTask t = t"
  by (simp add: reviveTask_def revive_Date_def split: option.splits)

lemma reviveGoal_same: "reviveGoal g = g"
proof -
  have "map reviveTask (tasks g) = tasks g"
    by (simp add: reviveTask_same map_idI)
  then show ?thesis
    by (simp add: reviveGoal_def revive_Date_def split: option.splits)
qed

lemma getGoals_Array: "goals_item st = Array_json gs \<Longrightarrow> getGoals st = gs"
  by (simp add: getGoals_def getGoals_try_def falsy_def JSON_parse_def array_map_def
      try_catch_def reviveGoal_same map_idI)

lemma getGoals_store_demo: "getGoals store_demo = [goal_demo, goal_over]"
  by (rule getGoals_Array) (simp add: store_demo_def)












text \<open>
  Claim C9. For every goal id, the progress percentage that \<open>calculateProgress\<close> returns
  lies in \<open>[0, 100]\<close>, also when \<open>hoursCompleted\<close> exceeds \<open>targetHours\<close>; for an id that
  matches no stored goal the result is the all-zero progress record with
  \<open>onTrack = false\<close>.
\<close>

theorem calculateProgress_percentage_range:
  "0 \<le> progressPercentage (calculateProgress now st goalId)
   \<and> progressPercentage (calculateProgress now st goalId) \<le> 100
   \<and> (find (\<lambda>g. goal_id g = goalId) (getGoals st) = None \<longrightarrow>
        calculateProgress now st goalId =
          \<lparr>progress_goalId = goalId, progressPercentage = 0, tasksCompleted = 0,
           totalTasks = 0, progress_hoursCompleted = 0, progress_targetHours = 0,
           daysUntilDeadline = None, onTrack = False, recommendedDailyMinutes = 0,
           projectedCompletionDate = None\<rparr>)"
proof (cases "find (\<lambda>g. goal_id g = goalId) (getGoals st)")
  case None
  then show ?thesis
    by (simp add: calculateProgress_not_found)
next
  case (Some goal)
  then show ?thesis
    by (simp add: calculateProgress_found)
qed

theorem calculateProgress_percentage_range_witness:
  "find (\<lambda>g. goal_id g = ''g9'') (getGoals store_demo) = None
   \<and> calculateProgress 0 store_demo ''g9'' =
          \<lparr>progress_goalId = ''g9'', progressPercentage = 0, tasksCompleted = 0,
           totalTasks = 0, progress_hoursCompleted = 0, progress_targetHours = 0,
           daysUntilDeadline = None, onTrack = False, recommendedDailyMinutes = 0,
           projectedCompletionDate = None\<rparr>
   \<and> 0 \<le> progressPercentage (calculateProgress 0 store_demo ''g2'')
   \<and> progressPercentage (calculateProgress 0 store_demo ''g2'') \<le> 100"
proof -
  have h: "find (\<lambda>g. goal_id g = ''g9'') (getGoals store_demo) = None"
    by (simp add: getGoals_store_demo goal_demo_def goal_over_def)
  from h calculateProgress_percentage_range [of 0 store_demo "''g9''"]
       calculateProgress_percentage_range [of 0 store_demo "''g2''"]
  show ?thesis
    by blast
qed

section \<open>Loading from a missing or damaged store\<close>

lemma loadCards_unparseable:
  assumes "flashcards_item st = Absent \<or> JSON_parse (flashcards_item st) = Inl SyntaxError"
  shows "loadCards st = []"
  using assms
  by (cases "flashcards_item st")
     (simp_all add: loadCards_def loadCards_try_def try_catch_def falsy_def JSON_parse_def)

lemma getGoals_unparseable:
  assumes "goals_item st = Absent \<or> JSON_parse (goals_item st) = Inl SyntaxError"
  shows "getGoals st = []"
  using assms
  by (cases "goals_item st")
     (simp_all add: getGoals_def getGoals_try_def try_catch_def falsy_def JSON_parse_def)

text \<open>
  Claim C7. In every state of the local storage in which the flashcards item (respectively
  the goals item) is absent, or present but rejected by \<open>JSON.parse\<close>, \<open>loadCards\<close>
  (respectively \<open>getGoals\<close>) returns the empty list. No exception leaves either function:
  the \<open>SyntaxError\<close> is raised inside the \<open>try\<close> block and the handler returns \<open>[]\<close>.
\<close>

theorem load_absent_or_unparseable:
  "((flashcards_item st = Absent \<or> JSON_parse (flashcards_item st) = Inl SyntaxError)
      \<longrightarrow> loadCards st = [] \<and> loadCards_try st \<in> {Inr [], Inl SyntaxError})
   \<and> ((goals_item st = Absent \<or> JSON_parse (goals_item st) = Inl SyntaxError)
      \<longrightarrow> getGoals st = [] \<and> getGoals_try st \<in> {Inr [], Inl SyntaxError})"
proof -
  have "loadCards_try st \<in> {Inr [], Inl SyntaxError}"
    if "flashcards_item st = Absent \<or> JSON_parse (flashcards_item st) = Inl SyntaxError"
    using that
    by (cases "flashcards_item st") (simp_all add: loadCards_try_def falsy_def JSON_parse_def)
  moreover have "getGoals_try st \<in> {Inr [], Inl SyntaxError}"
    if "goals_item st = Absent \<or> JSON_parse (goals_item st) = Inl SyntaxError"
    using that
    by (cases "goals_item st") (simp_all add: getGoals_try_def falsy_def JSON_parse_def)
  ultimately show ?thesis
    using loadCards_unparseable getGoals_unparseable by blast
qed

theorem load_absent_or_unparseable_witness:
  "JSON_parse (flashcards_item store_broken) = Inl SyntaxError
   \<and> loadCards store_broken = []
   \<and> JSON_parse (goals_item store_broken) = Inl SyntaxError
   \<and> getGoals store_broken = []
   \<and> flashcards_item store_demo = Absent
   \<and> loadCards store_demo = []"
proof -
  have a: "JSON_parse (flashcards_item store_broken) = Inl SyntaxError"
    by (simp add: store_broken_def store_demo_def JSON_parse_def)
  have b: "JSON_parse (goals_item store_broken) = Inl SyntaxError"
    by (simp add: store_broken_def store_demo_def JSON_parse_def)
  have c: "flashcards_item store_demo = Absent"
    by (simp add: store_demo_def)
  from a b c load_absent_or_unparseable [of store_broken]
       load_absent_or_unparseable [of store_demo]
  show ?thesis
    by blast
qed

section \<open>Properties of \<open>linkSessionToGoal\<close>\<close>

lemma storedSessions_cases:
  "storedSessions st = Some xs \<longleftrightarrow>
     (falsy (sessions_item st) \<and> xs = []) \<or> sessions_item st = Array_json xs"
  by (cases "sessions_item st")
     (auto simp add: storedSessions_def falsy_def JSON_parse_def)

lemma getGoals_sessions_update:
  "getGoals (st\<lparr>sessions_item := v\<rparr>) = getGoals st"
  by (simp add: getGoals_def getGoals_try_def)

lemma linkSessionToGoal_try_appends:
  assumes "find (\<lambda>g. goal_id g = link_goalId sessionLink) (getGoals st) = None"
      and "storedSessions st = Some xs"
      and "\<not> quota_exceeded st"
  shows "linkSessionToGoal_try now st sessionLink =
           Inr (st\<lparr>sessions_item := Array_json (xs @ [sessionLink])\<rparr>)"
proof -
  have p: "(if falsy (sessions_item st) then Inr (Array []) else JSON_parse (sessions_item st))
        = Inr (Array xs)"
    using assms(2) by (auto simp add: storedSessions_cases JSON_parse_def falsy_def)
  show ?thesis
    unfolding linkSessionToGoal_try_def Let_def p
    using assms(1,3)
    by (simp add: array_push_def setItem_def JSON_stringify_def getGoals_sessions_update)
qed

lemma linkSessionToGoal_try_fails:
  assumes "storedSessions st = None \<or> quota_exceeded st"
  shows "\<exists>e. linkSessionToGoal_try now st sessionLink = Inl e"
proof (cases "storedSessions st")
  case None
  then show ?thesis
    by (cases "sessions_item st")
       (simp_all add: linkSessionToGoal_try_def storedSessions_def falsy_def JSON_parse_def
          array_push_def)
next
  case (Some xs)
  then have p: "(if falsy (sessions_item st) then Inr (Array []) else JSON_parse (sessions_item st))
        = Inr (Array xs)"
    by (auto simp add: storedSessions_cases JSON_parse_def falsy_def)
  from Some assms have "quota_exceeded st"
    by simp
  then show ?thesis
    unfolding linkSessionToGoal_try_def Let_def p
    by (simp add: array_push_def setItem_def)
qed

text \<open>
  The link is not always appended: when the stored session log is not JSON, \<open>JSON.parse\<close>
  throws inside the \<open>try\<close> block, the handler only logs the error, and the storage is
  left as it was. Here the link names the goal \<open>g9\<close>, which is not stored.
\<close>

theorem linkSessionToGoal_append_counterexample:
  "find (\<lambda>g. goal_id g = link_goalId link_demo) (getGoals store_badlog) = None
   \<and> sessions_item store_badlog = Invalid_text
   \<and> sessions_item (linkSessionToGoal 0 store_badlog link_demo) = Invalid_text
   \<and> storedSessions (linkSessionToGoal 0 store_badlog link_demo) = None"
proof -
  have g: "getGoals store_badlog = [goal_demo, goal_over]"
    by (rule getGoals_Array) (simp add: store_badlog_def store_demo_def)
  have f: "find (\<lambda>g. goal_id g = link_goalId link_demo) (getGoals store_badlog) = None"
    by (simp add: g link_demo_def goal_demo_def goal_over_def)
  have s: "sessions_item store_badlog = Invalid_text"
    by (simp add: store_badlog_def)
  have l: "linkSessionToGoal 0 store_badlog link_demo = store_badlog"
    by (simp add: linkSessionToGoal_def linkSessionToGoal_try_def s falsy_def JSON_parse_def
        try_catch_def)
  show ?thesis
    by (simp add: f l s storedSessions_def falsy_def JSON_parse_def)
qed

text \<open>
  Claim C10, amended. For every session link whose \<open>goalId\<close> matches no stored goal,
  \<open>linkSessionToGoal\<close> leaves every stored goal unchanged. When the stored session log is
  absent or empty or holds a JSON array, and the storage accepts the write, the link is
  appended to the stored session log and nothing else changes; when the stored log is not
  a JSON array or the write is refused, the storage is left as it was.
\<close>

theorem linkSessionToGoal_no_goal:
  assumes "find (\<lambda>g. goal_id g = link_goalId sessionLink) (getGoals st) = None"
  shows "goals_item (linkSessionToGoal now st sessionLink) = goals_item st
       \<and> getGoals (linkSessionToGoal now st sessionLink) = getGoals st
       \<and> (\<forall>xs. storedSessions st = Some xs \<and> \<not> quota_exceeded st \<longrightarrow>
             linkSessionToGoal now st sessionLink =
               st\<lparr>sessions_item := Array_json (xs @ [sessionLink])\<rparr>
             \<and> storedSessions (linkSessionToGoal now st sessionLink) = Some (xs @ [sessionLink]))
       \<and> (storedSessions st = None \<or> quota_exceeded st \<longrightarrow>
             linkSessionToGoal now st sessionLink = st)"
proof -
  have ok: "linkSessionToGoal now st sessionLink =
               st\<lparr>sessions_item := Array_json (xs @ [sessionLink])\<rparr>"
    if "storedSessions st = Some xs" "\<not> quota_exceeded st" for xs
    using linkSessionToGoal_try_appends [OF assms that]
    by (simp add: linkSessionToGoal_def try_catch_def)
  have bad: "linkSessionToGoal now st sessionLink = st"
    if "storedSessions st = None \<or> quota_exceeded st"
    using linkSessionToGoal_try_fails [OF that, of now sessionLink]
    by (auto simp add: linkSessionToGoal_def try_catch_def)
  have goals: "goals_item (linkSessionToGoal now st sessionLink) = goals_item st"
  proof (cases "storedSessions st = None \<or> quota_exceeded st")
    case True
    then show ?thesis by (simp add: bad)
  next
    case False
    then obtain xs where "storedSessions st = Some xs" "\<not> quota_exceeded st"
      by auto
    then show ?thesis by (simp add: ok)
  qed
  then have "getGoals (linkSessionToGoal now st sessionLink) = getGoals st"
    by (simp add: getGoals_def getGoals_try_def)
  moreover have "storedSessions (st\<lparr>sessions_item := Array_json (xs @ [sessionLink])\<rparr>)
      = Some (xs @ [sessionLink])" for xs
    by (simp add: storedSessions_def falsy_def JSON_parse_def)
  ultimately show ?thesis
    using goals ok bad by simp
qed

theorem linkSessionToGoal_no_goal_witness:
  "find (\<lambda>g. goal_id g = link_goalId link_demo) (getGoals store_demo) = None
   \<and> storedSessions store_demo = Some []
   \<and> sessions_item (linkSessionToGoal 0 store_demo link_demo) = Array_json [link_demo]
   \<and> goals_item (linkSessionToGoal 0 store_demo link_demo) = Array_json [goal_demo, goal_over]
   \<and> storedSessions store_badlog = None
   \<and> linkSessionToGoal 0 store_badlog link_demo = store_badlog"
proof -
  have f: "find (\<lambda>g. goal_id g = link_goalId link_demo) (getGoals store_demo) = None"
    by (simp add: getGoals_store_demo link_demo_def goal_demo_def goal_over_def)
  have s: "storedSessions store_demo = Some []" "\<not> quota_exceeded store_demo"
    by (simp_all add: storedSessions_def store_demo_def falsy_def)
  have g: "getGoals store_badlog = [goal_demo, goal_over]"
    by (rule getGoals_Array) (simp add: store_badlog_def store_demo_def)
  have f': "find (\<lambda>g. goal_id g = link_goalId link_demo) (getGoals store_badlog) = None"
    by (simp add: g link_demo_def goal_demo_def goal_over_def)
  have s': "storedSessions store_badlog = None"
    by (simp add: storedSessions_def store_badlog_def falsy_def JSON_parse_def)
  have i: "goals_item store_demo = Array_json [goal_demo, goal_over]"
    by (simp add: store_demo_def)
  from linkSessionToGoal_no_goal [OF f, of 0] s
  have "linkSessionToGoal 0 store_demo link_demo = store_demo\<lparr>sessions_item := Array_json ([] @ [link_demo])\<rparr>"
    by blast
  then have a: "sessions_item (linkSessionToGoal 0 store_demo link_demo) = Array_json [link_demo]"
    by simp
  from linkSessionToGoal_no_goal [OF f, of 0] i
  have b: "goals_item (linkSessionToGoal 0 store_demo link_demo) = Array_json [goal_demo, goal_over]"
    by simp
  from linkSessionToGoal_no_goal [OF f', of 0] s'
  have c: "linkSessionToGoal 0 store_badlog link_demo = store_badlog"
    by blast
  from f s(1) a b s' c show ?thesis
    by blast
qed

section \<open>Properties of \<open>getDailyRecommendations\<close>\<close>

lemma mset_insert_by: "mset (insert_by compareFn x ys) = add_mset x (mset ys)"
  by (induction ys) simp_all

lemma mset_Array_sort: "mset (Array_sort compareFn xs) = mset xs"
  unfolding Array_sort_def
  by (induction xs) (simp_all add: mset_insert_by)

lemma set_insert_by: "set (insert_by compareFn x ys) = insert x (set ys)"
  by (induction ys) auto

lemma sorted_insert_by:
  fixes key :: "'a \<Rightarrow> real"
  assumes "sorted_wrt (\<lambda>a b. key a \<ge> key b) ys"
  shows "sorted_wrt (\<lambda>a b. key a \<ge> key b) (insert_by (\<lambda>a b. key b - key a) x ys)"
  using assms
proof (induction ys)
  case Nil
  then show ?case by simp
next
  case (Cons y ys)
  show ?case
  proof (cases "key y - key x \<le> 0")
    case True
    with Cons.prems show ?thesis
      by (auto intro: order_trans)
  next
    case False
    with Cons show ?thesis
      by (auto simp add: set_insert_by)
  qed
qed

lemma sorted_Array_sort:
  fixes key :: "'a \<Rightarrow> real"
  shows "sorted_wrt (\<lambda>a b. key a \<ge> key b) (Array_sort (\<lambda>a b. key b - key a) xs)"
  unfolding Array_sort_def
  by (induction xs) (simp_all add: sorted_insert_by)

lemma recommendationFor_goalId: "rec_goalId (recommendationFor now st goal) = goal_id goal"
  by (simp add: recommendationFor_def Let_def split: prod.splits)

lemma deadlineUrgency_priority:
  "snd (deadlineUrgency days) + priorityBoost p = spec_priority days p"
  by (simp add: deadlineUrgency_def priorityBoost_def spec_priority_def split: option.splits)

lemma recommendationFor_priority:
  "rec_priority (recommendationFor now st goal) =
     spec_priority (daysUntilDeadline (calculateProgress now st (goal_id goal))) (priority goal)"
  unfolding deadlineUrgency_priority [symmetric]
  by (simp add: recommendationFor_def Let_def split: prod.splits)

text \<open>
  Claim C6. \<open>getDailyRecommendations\<close> returns exactly one recommendation for each active
  goal, and the list is sorted by non-increasing priority, where the priority of a goal is
  its deadline tier (10 when \<open>daysUntilDeadline \<le> 2\<close>, 8 when \<open>\<le> 7\<close>, 6 when \<open>\<le> 14\<close>,
  4 otherwise, 5 with no deadline) plus 3 for a critical, 2 for a high, 0 for a medium and
  -1 for a low goal priority.
\<close>

theorem getDailyRecommendations_sorted:
  "length (getDailyRecommendations now st) = length (getActiveGoals st)
   \<and> mset (map (\<lambda>r. (rec_goalId r, rec_priority r)) (getDailyRecommendations now st)) =
       mset (map (\<lambda>g. (goal_id g,
                        spec_priority (daysUntilDeadline (calculateProgress now st (goal_id g)))
                          (priority g)))
               (getActiveGoals st))
   \<and> sorted_wrt (\<lambda>a b. rec_priority a \<ge> rec_priority b) (getDailyRecommendations now st)"
proof -
  have m: "mset (getDailyRecommendations now st) =
      mset (map (recommendationFor now st) (getActiveGoals st))"
    by (simp add: getDailyRecommendations_def mset_Array_sort)
  have "length (getDailyRecommendations now st) =
      length (map (recommendationFor now st) (getActiveGoals st))"
    using m by (rule mset_eq_length)
  then have len: "length (getDailyRecommendations now st) = length (getActiveGoals st)"
    by simp
  have e: "map (\<lambda>r. (rec_goalId r, rec_priority r))
             (map (recommendationFor now st) (getActiveGoals st)) =
           map (\<lambda>g. (goal_id g,
                        spec_priority (daysUntilDeadline (calculateProgress now st (goal_id g)))
                          (priority g)))
               (getActiveGoals st)"
    by (simp add: recommendationFor_goalId recommendationFor_priority)
  have "mset (map (\<lambda>r. (rec_goalId r, rec_priority r)) (getDailyRecommendations now st)) =
      image_mset (\<lambda>r. (rec_goalId r, rec_priority r)) (mset (getDailyRecommendations now st))"
    by simp
  also have "\<dots> = mset (map (\<lambda>r. (rec_goalId r, rec_priority r))
                      (map (recommendationFor now st) (getActiveGoals st)))"
    unfolding m by (simp only: mset_map)
  finally have each: "mset (map (\<lambda>r. (rec_goalId r, rec_priority r)) (getDailyRecommendations now st)) =
       mset (map (\<lambda>g. (goal_id g,
                        spec_priority (daysUntilDeadline (calculateProgress now st (goal_id g)))
                          (priority g)))
               (getActiveGoals st))"
    unfolding e .
  have srt: "sorted_wrt (\<lambda>a b. rec_priority a \<ge> rec_priority b) (getDailyRecommendations now st)"
    unfolding getDailyRecommendations_def by (rule sorted_Array_sort)
  from len each srt show ?thesis
    by blast
qed

lemma getActiveGoals_swapped: "getActiveGoals store_swapped = [goal_over, goal_demo]"
proof -
  have "getGoals store_swapped = [goal_over, goal_demo]"
    by (rule getGoals_Array) (simp add: store_swapped_def)
  then show ?thesis
    by (simp add: getActiveGoals_def goal_over_def goal_demo_def)
qed

theorem getDailyRecommendations_sorted_witness:
  "map goal_id (getActiveGoals store_swapped) = [''g2'', ''g1'']
   \<and> length (getDailyRecommendations 172800000 store_swapped) = 2
   \<and> mset (map (\<lambda>r. (rec_goalId r, rec_priority r)) (getDailyRecommendations 172800000 store_swapped))
       = {#(''g2'', 7), (''g1'', 8)#}
   \<and> sorted_wrt (\<lambda>a b. rec_priority a \<ge> rec_priority b)
       (getDailyRecommendations 172800000 store_swapped)"
proof -
  have g: "getGoals store_swapped = [goal_over, goal_demo]"
    by (rule getGoals_Array) (simp add: store_swapped_def)
  have f1: "find (\<lambda>g. goal_id g = ''g1'') (getGoals store_swapped) = Some goal_demo"
    by (simp add: g goal_demo_def goal_over_def)
  have f2: "find (\<lambda>g. goal_id g = ''g2'') (getGoals store_swapped) = Some goal_over"
    by (simp add: g goal_demo_def goal_over_def)
  have d1: "daysUntilDeadline (calculateProgress 172800000 store_swapped ''g1'') = Some 8"
    by (simp add: calculateProgress_found [OF f1] deadlineProjection_days goal_demo_def
        Math_ceil_def getTime_def)
  have d2: "daysUntilDeadline (calculateProgress 172800000 store_swapped ''g2'') = None"
    by (simp add: calculateProgress_found [OF f2] deadlineProjection_days goal_demo_def
        goal_over_def)
  have i: "goal_id goal_over = ''g2''" "goal_id goal_demo = ''g1''"
          "priority goal_over = high" "priority goal_demo = high"
    by (simp_all add: goal_over_def goal_demo_def)
  have s: "spec_priority (Some 8) high = 8" "spec_priority None high = 7"
    by (simp_all add: spec_priority_def)
  from getDailyRecommendations_sorted [of 172800000 store_swapped]
  show ?thesis
    unfolding getActiveGoals_swapped by (simp add: i d1 d2 s)
qed

section \<open>Properties of \<open>getStoryForSession\<close>\<close>












end
